theory Spec2Isabelle
  imports Main "HOL-Library.Multiset" "HOL-Library.Extended_Nat"
begin

section \<open>Text\<close>

text \<open>
  A Python \<open>str\<close> is a sequence of Unicode code points, so a text is a list of natural
  numbers; \<open>str\<close> turns an ASCII literal into its code points.
\<close>

type_synonym pystr = "nat list"

definition str :: "string \<Rightarrow> pystr" where
  "str s = map of_char s"

text \<open>
  The code points for which \<open>str.isspace\<close> holds. The regular expression class
  \<open>\s\<close> of a \<open>str\<close> pattern and \<open>str.strip()\<close> use the same test.
\<close>

definition whitespace_points :: "nat list" where
  "whitespace_points =
     [9, 10, 11, 12, 13, 28, 29, 30, 31, 32, 133, 160, 5760,
      8192, 8193, 8194, 8195, 8196, 8197, 8198, 8199, 8200, 8201, 8202,
      8232, 8233, 8239, 8287, 12288]"

definition isspace :: "nat \<Rightarrow> bool" where
  "isspace c = (c \<in> set whitespace_points)"

text \<open>
  The decimal digits (general category Nd, Unicode 14.0, the database of CPython 3.11)
  come in blocks of ten consecutive code points with the values 0 to 9;
  \<open>digit_blocks\<close> lists the first code point of each block. The class \<open>\d\<close> of a
  \<open>str\<close> pattern matches exactly these, and \<open>int\<close> reads each of them as its value.
\<close>

definition digit_blocks :: "nat list" where
  "digit_blocks =
     [48, 1632, 1776, 1984, 2406, 2534, 2662, 2790, 2918, 3046, 3174, 3302, 3430, 3558,
      3664, 3792, 3872, 4160, 4240, 6112, 6160, 6470, 6608, 6784, 6800, 6992, 7088, 7232,
      7248, 42528, 43216, 43264, 43472, 43504, 43600, 44016, 65296, 66720, 68912, 69734,
      69872, 69942, 70096, 70384, 70736, 70864, 71248, 71360, 71472, 71904, 72016, 72784,
      73040, 73120, 92768, 92864, 93008, 120782, 120792, 120802, 120812, 120822, 123200,
      123632, 125264, 130032]"

definition in_block :: "nat \<Rightarrow> nat \<Rightarrow> bool" where
  "in_block c b = (b \<le> c \<and> c < b + 10)"

definition isdecimal :: "nat \<Rightarrow> bool" where
  "isdecimal c = list_ex (in_block c) digit_blocks"

definition decimal :: "nat \<Rightarrow> nat" where
  "decimal c = (case find (in_block c) digit_blocks of Some b \<Rightarrow> c - b | None \<Rightarrow> 0)"

text \<open>
  The exceptions that matter here: \<open>subprocess.TimeoutExpired\<close>, the \<open>ValueError\<close>
  of \<open>int\<close>, and any other exception of \<open>subprocess.run\<close> (the program cannot be
  started, its output cannot be decoded).
\<close>

datatype exn = TimeoutExpired | ValueError | OtherException

text \<open>
  \<open>int(g)\<close> for a text \<open>g\<close> of decimal digits, the only texts the capture group
  \<open>(\d+)\<close> yields: the number they write in base ten. CPython 3.11 refuses to convert
  a text of more than \<open>sys.get_int_max_str_digits()\<close> digits, 4300 unless the interpreter
  was started with another setting, and raises \<open>ValueError\<close>; every digit counts,
  leading zeros too.
\<close>

definition max_str_digits :: nat where
  "max_str_digits = 4300"

definition decimal_value :: "pystr \<Rightarrow> nat" where
  "decimal_value g = foldl (\<lambda>a c. 10 * a + decimal c) 0 g"

definition py_int :: "pystr \<Rightarrow> exn + int" where
  "py_int g =
     (if max_str_digits < length g then Inl ValueError else Inr (int (decimal_value g)))"

text \<open>\<open>str(i)\<close> for an integer.\<close>

fun digits :: "nat \<Rightarrow> pystr" where
  "digits n = (if n < 10 then [48 + n] else digits (n div 10) @ [48 + n mod 10])"

declare digits.simps [simp del]

definition py_str :: "int \<Rightarrow> pystr" where
  "py_str i = (if i < 0 then 45 # digits (nat (- i)) else digits (nat i))"

text \<open>\<open>s.split(sep)\<close> for a separator of one character: always at least one piece.\<close>

fun py_split :: "nat \<Rightarrow> pystr \<Rightarrow> pystr list" where
  "py_split sep [] = [[]]"
| "py_split sep (c # cs) =
     (if c = sep then [] # py_split sep cs
      else (case py_split sep cs of l # ls \<Rightarrow> (c # l) # ls | [] \<Rightarrow> [[c]]))"

definition strip :: "pystr \<Rightarrow> pystr" where
  "strip s = rev (dropWhile isspace (rev (dropWhile isspace s)))"

definition startswith :: "pystr \<Rightarrow> pystr \<Rightarrow> bool" where
  "startswith s p = (take (length p) s = p)"

section \<open>The regular expressions of \<open>extract_plan_length\<close>\<close>

text \<open>
  The four patterns are built from three constructs only: a run of literal characters,
  \<open>\s*\<close>, and the capture group \<open>(\d+)\<close>. \<open>match_here ts s g\<close> matches the
  tokens \<open>ts\<close> at the start of \<open>s\<close> the way the backtracking matcher of \<open>re\<close>
  does: a repetition first takes as many characters as it can and gives them back one
  at a time while the rest of the pattern fails. The result is the text of group 1.
  \<open>re_search\<close> tries each start position from left to right, as \<open>re.search\<close> does.
\<close>

datatype token = Lit pystr | Spaces | Digits

fun first_success :: "(nat \<Rightarrow> 'a option) \<Rightarrow> nat list \<Rightarrow> 'a option" where
  "first_success f [] = None"
| "first_success f (k # ks) =
     (case f k of Some r \<Rightarrow> Some r | None \<Rightarrow> first_success f ks)"

fun match_here :: "token list \<Rightarrow> pystr \<Rightarrow> pystr \<Rightarrow> pystr option" where
  "match_here [] s g = Some g"
| "match_here (Lit l # ts) s g =
     (if take (length l) s = l then match_here ts (drop (length l) s) g else None)"
| "match_here (Spaces # ts) s g =
     first_success (\<lambda>k. match_here ts (drop k s) g)
       (rev [0 ..< Suc (length (takeWhile isspace s))])"
| "match_here (Digits # ts) s g =
     first_success (\<lambda>k. match_here ts (drop k s) (take k s))
       (rev [1 ..< Suc (length (takeWhile isdecimal s))])"

fun re_search :: "token list \<Rightarrow> pystr \<Rightarrow> pystr option" where
  "re_search p [] = match_here p [] []"
| "re_search p (c # cs) =
     (case match_here p (c # cs) [] of Some g \<Rightarrow> Some g | None \<Rightarrow> re_search p cs)"

section \<open>\<open>extract_plan_length\<close>\<close>

definition patterns :: "token list list" where
  "patterns =
     [[Lit (str ''Plan length:''), Spaces, Digits],
      [Lit (str ''Solution found with ''), Digits, Lit (str '' actions'')],
      [Digits, Lit (str '' actions in the plan'')],
      [Lit (str ''Steps:''), Spaces, Digits]]"

text \<open>The loop over the patterns: the first pattern with a match ends it.\<close>

fun first_match :: "token list list \<Rightarrow> pystr \<Rightarrow> pystr option" where
  "first_match [] output = None"
| "first_match (pattern # rest) output =
     (case re_search pattern output of
        Some g \<Rightarrow> Some g
      | None \<Rightarrow> first_match rest output)"

definition action_line :: "pystr \<Rightarrow> bool" where
  "action_line line = (startswith (strip line) (str ''('') \<and> of_char CHR '')'' \<in> set line)"

text \<open>
  The result is \<open>Inr\<close> of the returned integer, or \<open>Inl\<close> of the exception that
  \<open>int\<close> raises, which the function does not catch.
\<close>

definition extract_plan_length :: "pystr \<Rightarrow> exn + int" where
  "extract_plan_length output =
     (case first_match patterns output of
        Some g \<Rightarrow> py_int g
      | None \<Rightarrow>
          (let action_count = length (filter action_line (py_split 10 output))
           in Inr (if action_count > 0 then int action_count else - 1)))"

section \<open>The planner adapters\<close>

text \<open>
  \<open>subprocess.run\<close> either returns a completed process or raises. The adapters catch
  \<open>TimeoutExpired\<close> only, so any other exception of \<open>subprocess.run\<close>, and the
  \<open>ValueError\<close> of \<open>extract_plan_length\<close>, leave them. What the external program
  does, and the two readings of the clock, are inputs of the model. Times are real
  numbers; no statement below depends on the value of the elapsed time.
\<close>

datatype CompletedProcess =
  CompletedProcess (returncode: int) (proc_stdout: pystr) (proc_stderr: pystr)

record env =
  subprocess_run :: "pystr list \<Rightarrow> int \<Rightarrow> exn + CompletedProcess"
  start_time :: real
  end_time :: real

record RunOutcome =
  success :: bool
  runtime :: real
  plan_length :: int
  stdout :: pystr
  stderr :: pystr

text \<open>
  A row of \<open>self.results\<close>, with the columns that \<open>generate_plots\<close> reads.
\<close>

record row =
  domain :: pystr
  hsp_runtime :: real
  mcts_runtime :: real
  hsp_plan_length :: int
  mcts_plan_length :: int

record PlannerBenchmark =
  pddl4j_path :: pystr
  timeout :: int
  results :: "row list"

definition hsp_cmd :: "PlannerBenchmark \<Rightarrow> pystr \<Rightarrow> pystr \<Rightarrow> pystr list" where
  "hsp_cmd self domain_file problem_file =
     [str ''java'', str ''-cp'', pddl4j_path self,
      str ''fr.uga.pddl4j.planners.statespace.HSP'',
      str ''-d'', domain_file,
      str ''-p'', problem_file,
      str ''-t'', py_str (timeout self)]"

definition run_hsp_planner ::
  "env \<Rightarrow> PlannerBenchmark \<Rightarrow> pystr \<Rightarrow> pystr \<Rightarrow> exn + RunOutcome" where
  "run_hsp_planner e self domain_file problem_file =
     (case subprocess_run e (hsp_cmd self domain_file problem_file) (timeout self) of
        Inr result \<Rightarrow>
          (let elapsed = end_time e - start_time e
           in case extract_plan_length (proc_stdout result) of
                Inl raised \<Rightarrow> Inl raised
              | Inr n \<Rightarrow>
                  (let ok = (returncode result = 0 \<and> n > 0)
                   in Inr \<lparr>success = ok, runtime = elapsed, plan_length = n,
                           stdout = proc_stdout result, stderr = proc_stderr result\<rparr>))
      | Inl TimeoutExpired \<Rightarrow>
          Inr \<lparr>success = False, runtime = real_of_int (timeout self), plan_length = - 1,
                stdout = str '''', stderr = str ''Timeout''\<rparr>
      | Inl other \<Rightarrow> Inl other)"

definition mcts_cmd ::
  "PlannerBenchmark \<Rightarrow> pystr \<Rightarrow> pystr \<Rightarrow> int \<Rightarrow> int \<Rightarrow> pystr list" where
  "mcts_cmd self domain_file problem_file walks len =
     [str ''java'', str ''-cp'', pddl4j_path self @ str '':target/classes'',
      str ''fr.uga.pddl4j.planners.mcts.MCTSPlanner'',
      str ''-d'', domain_file,
      str ''-p'', problem_file,
      str ''-t'', py_str (timeout self),
      str ''-w'', py_str walks,
      str ''-l'', py_str len]"

definition run_mcts_planner ::
  "env \<Rightarrow> PlannerBenchmark \<Rightarrow> pystr \<Rightarrow> pystr \<Rightarrow> int \<Rightarrow> int \<Rightarrow> exn + RunOutcome" where
  "run_mcts_planner e self domain_file problem_file walks len =
     (case subprocess_run e (mcts_cmd self domain_file problem_file walks len) (timeout self) of
        Inr result \<Rightarrow>
          (let elapsed = end_time e - start_time e
           in case extract_plan_length (proc_stdout result) of
                Inl raised \<Rightarrow> Inl raised
              | Inr n \<Rightarrow>
                  (let ok = (returncode result = 0 \<and> n > 0)
                   in Inr \<lparr>success = ok, runtime = elapsed, plan_length = n,
                           stdout = proc_stdout result, stderr = proc_stderr result\<rparr>))
      | Inl TimeoutExpired \<Rightarrow>
          Inr \<lparr>success = False, runtime = real_of_int (timeout self), plan_length = - 1,
                stdout = str '''', stderr = str ''Timeout''\<rparr>
      | Inl other \<Rightarrow> Inl other)"

section \<open>\<open>generate_plots\<close>\<close>

text \<open>
  \<open>generate_plots\<close> prints, creates a directory and saves one figure per domain; the
  model returns these effects in order. A figure is the path it is saved to and the
  data of its curves: the x positions, the two runtime curves of the left panel and
  the two plan-length curves of the right panel. Labels, titles, colours and the
  legend are not modelled, and the calls into the file system are taken to succeed.
\<close>

record figure =
  fig_path :: pystr
  fig_x :: "nat list"
  fig_hsp_runtime :: "real list"
  fig_mcts_runtime :: "real list"
  fig_hsp_lengths :: "enat list"
  fig_mcts_lengths :: "enat list"

datatype effect = Print pystr | Makedirs pystr | Savefig figure

text \<open>\<open>Series.unique()\<close>: the distinct values in order of first appearance.\<close>

fun unique :: "'a list \<Rightarrow> 'a list" where
  "unique [] = []"
| "unique (v # vs) = v # unique (filter (\<lambda>w. w \<noteq> v) vs)"

text \<open>
  The element of the comprehensions \<open>[l if l > 0 else float('inf') for l in ...]\<close>:
  a positive length, or infinity.
\<close>

definition plot_length :: "int \<Rightarrow> enat" where
  "plot_length l = (if l > 0 then enat (nat l) else \<infinity>)"

text \<open>
  \<open>domain_df.sort_values('hsp_runtime')\<close> is a call into the data-frame library, which
  hands the column to the native sorting routine of the array library. That routine is
  not part of the sources, so the sort is a parameter \<open>sort_values\<close> of the model: it
  takes the column to sort by and the rows. Nothing is assumed of it.
\<close>

definition plot_domain ::
  "((row \<Rightarrow> real) \<Rightarrow> row list \<Rightarrow> row list) \<Rightarrow> row list \<Rightarrow> pystr \<Rightarrow> figure" where
  "plot_domain sort_values df d =
     (let domain_df = sort_values hsp_runtime (filter (\<lambda>r. domain r = d) df)
      in \<lparr>fig_path = str ''results/figures/'' @ d @ str ''_comparison.png'',
          fig_x = [0 ..< length domain_df],
          fig_hsp_runtime = map hsp_runtime domain_df,
          fig_mcts_runtime = map mcts_runtime domain_df,
          fig_hsp_lengths = map plot_length (map hsp_plan_length domain_df),
          fig_mcts_lengths = map plot_length (map mcts_plan_length domain_df)\<rparr>)"

definition generate_plots ::
  "((row \<Rightarrow> real) \<Rightarrow> row list \<Rightarrow> row list) \<Rightarrow> PlannerBenchmark \<Rightarrow> effect list" where
  "generate_plots sort_values self =
     (if results self = [] then [Print (str ''No results to plot'')]
      else
        (let df = results self;
             domains = unique (map domain df)
         in Makedirs (str ''results/figures'') #
            map (\<lambda>d. Savefig (plot_domain sort_values df d)) domains))"

section \<open>Notions and sample inputs of the statements\<close>

text \<open>A text begins with a digit when its first character is a decimal digit.\<close>

definition begins_with_digit :: "pystr \<Rightarrow> bool" where
  "begins_with_digit s = (case s of [] \<Rightarrow> False | c # _ \<Rightarrow> isdecimal c)"

text \<open>An external program that never finishes in time, and a harness with the default timeout.\<close>

definition always_timeout :: env where
  "always_timeout =
     \<lparr>subprocess_run = (\<lambda>cmd t. Inl TimeoutExpired), start_time = 0, end_time = 300\<rparr>"

definition bench300 :: PlannerBenchmark where
  "bench300 = \<lparr>pddl4j_path = str ''pddl4j.jar'', timeout = 300, results = []\<rparr>"

text \<open>An external program that prints a plan of five steps and exits with the given status.\<close>

definition five_steps :: "int \<Rightarrow> env" where
  "five_steps status =
     \<lparr>subprocess_run =
        (\<lambda>cmd t. Inr (CompletedProcess status
                         (str ''found plan'' @ [10] @ str ''Steps: 5'' @ [10]) [])),
      start_time = 1, end_time = 3\<rparr>"

text \<open>
  The first \<open>k\<close> of four lines, one for each pattern, in the reverse of the order
  in which \<open>extract_plan_length\<close> lists the patterns.
\<close>

definition four_reports :: "nat \<Rightarrow> pystr" where
  "four_reports k =
     concat (take k
       [str ''Steps: 4'' @ [10],
        str ''3 actions in the plan'' @ [10],
        str ''Solution found with 2 actions'' @ [10],
        str ''Plan length: 1'' @ [10]])"

text \<open>A text without any of the four phrases, three of whose four lines look like actions.\<close>

definition three_actions :: pystr where
  "three_actions =
     str ''(pick a)'' @ [10] @ str ''  (stack a b)  '' @ [10] @
     str ''planner done (ok)'' @ [10] @ [9] @ str ''(putdown c)''"

text \<open>An external program that prints the given text and exits with status 0.\<close>

definition prints :: "pystr \<Rightarrow> env" where
  "prints out =
     \<lparr>subprocess_run = (\<lambda>cmd t. Inr (CompletedProcess 0 out [])),
      start_time = 1, end_time = 3\<rparr>"

text \<open>Three records of one domain, with the HSP runtimes 5, 1 and 3.\<close>

definition blocksworld3 :: "row list" where
  "blocksworld3 =
     [\<lparr>domain = str ''blocksworld'', hsp_runtime = 5, mcts_runtime = 7,
        hsp_plan_length = 12, mcts_plan_length = 6\<rparr>,
      \<lparr>domain = str ''blocksworld'', hsp_runtime = 1, mcts_runtime = 2,
        hsp_plan_length = 4, mcts_plan_length = 9\<rparr>,
      \<lparr>domain = str ''blocksworld'', hsp_runtime = 3, mcts_runtime = 300,
        hsp_plan_length = 8, mcts_plan_length = - 1\<rparr>]"

text \<open>
  The sort of the sample runs. The HSP runtimes of \<open>blocksworld3\<close> are pairwise
  different, so there is only one way to put its rows in ascending order.
\<close>

definition ascending :: "(row \<Rightarrow> real) \<Rightarrow> row list \<Rightarrow> row list" where
  "ascending column rs = sort_key column rs"

section \<open>Facts about the matcher\<close>

lemmas char_evals = str_def isspace_def whitespace_points_def isdecimal_def digit_blocks_def
  in_block_def decimal_def

lemmas py_evals = py_int_def decimal_value_def max_str_digits_def

lemma first_success_cong_on:
  "(\<And>k. k \<in> set ks \<Longrightarrow> f k = h k) \<Longrightarrow> first_success f ks = first_success h ks"
  by (induction ks) (auto split: option.splits)

lemma takeWhile_stop: "\<not> P c \<Longrightarrow> takeWhile P (s @ c # t) = takeWhile P s"
  by (induction s) auto

lemma match_here_tail:
  assumes "\<not> isspace c" and "\<not> isdecimal c" and "list_all (\<lambda>t. t = Spaces \<or> t = Digits) ts"
  shows "match_here ts (s @ c # t) g = match_here ts s g"
  using assms(3)
proof (induction ts arbitrary: s g)
  case Nil
  show ?case by simp
next
  case (Cons a ts)
  then have rest: "list_all (\<lambda>t. t = Spaces \<or> t = Digits) ts"
    and a: "a = Spaces \<or> a = Digits" by simp_all
  have le: "length (takeWhile P s) \<le> length s" for P
    by (rule length_takeWhile_le)
  from a show ?case
  proof
    assume "a = Spaces"
    have "first_success (\<lambda>k. match_here ts (drop k (s @ c # t)) g)
            (rev [0 ..< Suc (length (takeWhile isspace s))]) =
          first_success (\<lambda>k. match_here ts (drop k s) g)
            (rev [0 ..< Suc (length (takeWhile isspace s))])"
    proof (rule first_success_cong_on)
      fix k assume "k \<in> set (rev [0 ..< Suc (length (takeWhile isspace s))])"
      then have "k \<le> length s" using le [of isspace] by auto
      then show "match_here ts (drop k (s @ c # t)) g = match_here ts (drop k s) g"
        using Cons.IH [OF rest, of "drop k s" g] by simp
    qed
    with \<open>a = Spaces\<close> show ?thesis
      using assms(1) by (simp add: takeWhile_stop)
  next
    assume "a = Digits"
    have "first_success (\<lambda>k. match_here ts (drop k (s @ c # t)) (take k (s @ c # t)))
            (rev [1 ..< Suc (length (takeWhile isdecimal s))]) =
          first_success (\<lambda>k. match_here ts (drop k s) (take k s))
            (rev [1 ..< Suc (length (takeWhile isdecimal s))])"
    proof (rule first_success_cong_on)
      fix k assume "k \<in> set (rev [1 ..< Suc (length (takeWhile isdecimal s))])"
      then have "k \<le> length s" using le [of isdecimal] by auto
      then show "match_here ts (drop k (s @ c # t)) (take k (s @ c # t)) =
                 match_here ts (drop k s) (take k s)"
        using Cons.IH [OF rest, of "drop k s" "take k s"] by simp
    qed
    with \<open>a = Digits\<close> show ?thesis
      using assms(2) by (simp add: takeWhile_stop)
  qed
qed

lemma take_append_Cons_eq:
  assumes "take (length l) (s @ c # t) = l" and "s \<noteq> []" and "c \<notin> set (tl l)"
  shows "length l \<le> length s"
proof (rule ccontr)
  assume "\<not> length l \<le> length s"
  then have lt: "length s < length l" by simp
  have "l ! length s = (s @ c # t) ! length s"
    using assms(1) lt by (metis nth_take)
  then have "l ! length s = c" by simp
  moreover have "0 < length s" using assms(2) by simp
  ultimately have "c \<in> set (tl l)"
    using lt by (metis Suc_pred' in_set_conv_nth length_tl less_diff_conv nth_tl  Suc_eq_plus1)
  with assms(3) show False by simp
qed

lemma match_here_lit_tail:
  assumes "\<not> isspace c" and "\<not> isdecimal c" and "list_all (\<lambda>t. t = Spaces \<or> t = Digits) ts"
    and "s \<noteq> []" and "c \<notin> set (tl l)"
  shows "match_here (Lit l # ts) (s @ c # t) g = match_here (Lit l # ts) s g"
proof (cases "take (length l) (s @ c # t) = l")
  case True
  then have le: "length l \<le> length s"
    using assms(4,5) by (rule take_append_Cons_eq)
  with True have "take (length l) s = l" by simp
  with True le show ?thesis
    using match_here_tail [OF assms(1,2,3), of "drop (length l) s" t g] by simp
next
  case False
  then have "take (length l) s \<noteq> l"
    by (metis append_eq_conv_conj take_append nat_le_linear take_all_iff diff_is_0_eq' take_0 append_Nil2)
  with False show ?thesis by simp
qed

lemma re_search_skip:
  assumes "\<not> isspace c" and "\<not> isdecimal c" and "list_all (\<lambda>t. t = Spaces \<or> t = Digits) ts"
    and "c \<notin> set (tl l)"
  shows "re_search (Lit l # ts) pre = None \<Longrightarrow>
         re_search (Lit l # ts) (pre @ c # t) = re_search (Lit l # ts) (c # t)"
proof (induction pre)
  case Nil
  show ?case by simp
next
  case (Cons x xs)
  from Cons.prems have none: "match_here (Lit l # ts) (x # xs) [] = None"
    and rest: "re_search (Lit l # ts) xs = None"
    by (auto split: option.splits)
  have "match_here (Lit l # ts) ((x # xs) @ c # t) [] = None"
    using match_here_lit_tail [OF assms(1,2,3) _ assms(4), of "x # xs" t "[]"] none by simp
  then show ?case using Cons.IH [OF rest] by simp
qed

lemma no_digit_prefix: "\<not> begins_with_digit post \<Longrightarrow> takeWhile isdecimal post = []"
  by (cases post) (auto simp: begins_with_digit_def)

lemma plan_length_here:
  assumes "\<not> begins_with_digit post"
  shows "match_here (patterns ! 0) (str ''Plan length: 7'' @ post) [] = Some (str ''7'')"
  using no_digit_prefix [OF assms] by (simp add: patterns_def char_evals)

lemma steps_here:
  assumes "\<not> begins_with_digit post"
  shows "match_here (patterns ! 3) (str ''Steps: 5'' @ post) [] = Some (str ''5'')"
  using no_digit_prefix [OF assms] by (simp add: patterns_def char_evals)

lemma plan_length_search:
  assumes "re_search (patterns ! 0) pre = None" and "\<not> begins_with_digit post"
  shows "re_search (patterns ! 0) (pre @ str ''Plan length: 7'' @ post) = Some (str ''7'')"
proof -
  have p0: "patterns ! 0 = Lit (str ''Plan length:'') # [Spaces, Digits]"
    by (simp add: patterns_def)
  have occ: "str ''Plan length: 7'' @ post = 80 # (str ''lan length: 7'' @ post)"
    by (simp add: str_def)
  have "re_search (patterns ! 0) (pre @ 80 # (str ''lan length: 7'' @ post)) =
        re_search (patterns ! 0) (80 # (str ''lan length: 7'' @ post))"
    unfolding p0
    by (rule re_search_skip) (use assms(1) in \<open>simp_all add: p0 char_evals\<close>)
  also have "\<dots> = Some (str ''7'')"
    using plan_length_here [OF assms(2)] by (simp add: occ [symmetric] str_def del: match_here.simps)
  finally show ?thesis by (simp add: occ)
qed

lemma first_match_at:
  assumes "i < length ps" and "re_search (ps ! i) output = Some g"
    and "\<forall>j<i. re_search (ps ! j) output = None"
  shows "first_match ps output = Some g"
  using assms
proof (induction ps arbitrary: i)
  case Nil
  then show ?case by simp
next
  case (Cons p ps)
  show ?case
  proof (cases i)
    case 0
    with Cons.prems show ?thesis by simp
  next
    case (Suc k)
    with Cons.prems have "re_search p output = None" by auto
    moreover have "first_match ps output = Some g"
    proof (rule Cons.IH)
      show "k < length ps" using Cons.prems(1) Suc by simp
      show "re_search (ps ! k) output = Some g" using Cons.prems(2) Suc by simp
      show "\<forall>j<k. re_search (ps ! j) output = None"
        using Cons.prems(3) Suc by auto
    qed
    ultimately show ?thesis by simp
  qed
qed

lemma first_match_None:
  "first_match ps output = None \<longleftrightarrow> (\<forall>p \<in> set ps. re_search p output = None)"
  by (induction ps) (auto split: option.splits)

lemma in_dropWhile: "c \<in> set xs \<Longrightarrow> \<not> P c \<Longrightarrow> c \<in> set (dropWhile P xs)"
  by (induction xs) auto

lemma in_strip: "\<not> isspace c \<Longrightarrow> c \<in> set (strip s) \<longleftrightarrow> c \<in> set s"
proof
  assume "c \<in> set (strip s)"
  then show "c \<in> set s"
    by (auto simp: strip_def dest!: set_dropWhileD)
next
  assume "\<not> isspace c" and "c \<in> set s"
  then show "c \<in> set (strip s)"
    by (simp add: strip_def in_dropWhile)
qed

lemma action_line_trimmed:
  "action_line line \<longleftrightarrow>
     startswith (strip line) (str ''('') \<and> of_char CHR '')'' \<in> set (strip line)"
proof -
  have "\<not> isspace (of_char CHR '')'')"
    by (simp add: isspace_def whitespace_points_def)
  then show ?thesis
    by (simp add: action_line_def in_strip)
qed

lemma py_int_nonneg: "py_int g = Inr v \<Longrightarrow> 0 \<le> v"
  by (auto simp: py_int_def split: if_splits)

lemma extract_plan_length_lower: "extract_plan_length text = Inr v \<Longrightarrow> - 1 \<le> v"
  by (auto simp: extract_plan_length_def Let_def split: option.splits if_splits
      dest: py_int_nonneg)

lemma py_int_one_digit: "py_int [c] = Inr (int (decimal c))"
  by (simp add: py_int_def decimal_value_def max_str_digits_def)

lemma all_less_2: "(\<forall>j<(2::nat). P j) \<longleftrightarrow> P 0 \<and> P 1"
  by (auto simp: less_Suc_eq numeral_2_eq_2)

lemma all_less_3: "(\<forall>j<(3::nat). P j) \<longleftrightarrow> P 0 \<and> P 1 \<and> P 2"
  by (auto simp: less_Suc_eq numeral_3_eq_3 numeral_2_eq_2)

lemma digit_run_here:
  assumes "isdecimal d" and "0 < n"
  shows "match_here [Digits] (replicate n d) g = Some (replicate n d)"
proof -
  have run: "takeWhile isdecimal (replicate n d) = replicate n d"
    using assms(1) by simp
  have "[1 ..< Suc n] = [1 ..< n] @ [n]"
    using assms(2) by simp
  then have ks: "rev [1 ..< Suc n] = n # rev [1 ..< n]"
    by simp
  have "match_here [Digits] (replicate n d) g =
          first_success (\<lambda>k. match_here [] (drop k (replicate n d)) (take k (replicate n d)))
            (rev [1 ..< Suc n])"
    by (simp only: match_here.simps run length_replicate)
  also have "\<dots> = Some (replicate n d)"
    by (simp only: ks first_success.simps match_here.simps take_replicate min.idem option.case)
  finally show ?thesis .
qed

lemma long_capture:
  assumes "0 < n"
  shows "re_search (patterns ! 0) (str ''Plan length: '' @ replicate n (of_char CHR ''7'')) =
           Some (replicate n (of_char CHR ''7''))"
proof -
  define run :: pystr where "run = replicate n (of_char CHR ''7'')"
  have seven: "isdecimal (of_char CHR ''7'')" and not_space: "\<not> isspace (of_char CHR ''7'')"
    by (simp_all add: char_evals)
  have run_match: "match_here [Digits] run g = Some run" for g
    unfolding run_def using seven assms by (rule digit_run_here)
  have "takeWhile isspace run = []"
    unfolding run_def using not_space by simp
  then have spaces: "takeWhile isspace (32 # run) = [32]"
    by (simp add: isspace_def whitespace_points_def)
  have "match_here [Spaces, Digits] (32 # run) [] =
          first_success (\<lambda>k. match_here [Digits] (drop k (32 # run)) []) (rev [0 ..< Suc (length [32::nat])])"
    by (simp only: match_here.simps spaces)
  also have "\<dots> = Some run"
    by (simp add: run_match del: match_here.simps)
  finally have tail: "match_here [Spaces, Digits] (32 # run) [] = Some run" .
  have shape: "str ''Plan length: '' @ run = str ''Plan length:'' @ 32 # run"
    by (simp add: str_def)
  have "match_here (patterns ! 0) (str ''Plan length:'' @ 32 # run) [] = Some run"
    using tail by (simp add: patterns_def del: match_here.simps(3,4))
  then have "re_search (patterns ! 0) (str ''Plan length: '' @ run) = Some run"
    by (simp add: shape str_def del: match_here.simps)
  then show ?thesis
    by (simp only: run_def)
qed

lemma steps_search:
  assumes "re_search (patterns ! 3) pre = None" and "\<not> begins_with_digit post"
  shows "re_search (patterns ! 3) (pre @ str ''Steps: 5'' @ post) = Some (str ''5'')"
proof -
  have p3: "patterns ! 3 = Lit (str ''Steps:'') # [Spaces, Digits]"
    by (simp add: patterns_def)
  have occ: "str ''Steps: 5'' @ post = 83 # (str ''teps: 5'' @ post)"
    by (simp add: str_def)
  have "re_search (patterns ! 3) (pre @ 83 # (str ''teps: 5'' @ post)) =
        re_search (patterns ! 3) (83 # (str ''teps: 5'' @ post))"
    unfolding p3
    by (rule re_search_skip) (use assms(1) in \<open>simp_all add: p3 char_evals\<close>)
  also have "\<dots> = Some (str ''5'')"
    using steps_here [OF assms(2)] by (simp add: occ [symmetric] str_def del: match_here.simps)
  finally show ?thesis by (simp add: occ)
qed

lemma steps_5:
  assumes "output = pre @ str ''Steps: 5'' @ post"
    and "\<forall>j<3. re_search (patterns ! j) output = None"
    and "re_search (patterns ! 3) pre = None"
    and "\<not> begins_with_digit post"
  shows "extract_plan_length output = Inr 5"
proof -
  have "re_search (patterns ! 3) output = Some (str ''5'')"
    using steps_search [OF assms(3,4)] assms(1) by simp
  then have "first_match patterns output = Some (str ''5'')"
    using assms(2) by (intro first_match_at [of 3]) (simp_all add: patterns_def)
  then show ?thesis
    by (simp add: extract_plan_length_def str_def py_int_one_digit char_evals)
qed

section \<open>The claims\<close>

text \<open>
  C1. When the external process exceeds the timeout, neither adapter raises: each
  returns the outcome with \<open>success = False\<close>, the configured timeout as runtime,
  \<open>plan_length = -1\<close>, an empty \<open>stdout\<close> and \<open>stderr = "Timeout"\<close>.
\<close>

theorem timeout_outcome:
  "(subprocess_run e (hsp_cmd self d p) (timeout self) = Inl TimeoutExpired \<longrightarrow>
      run_hsp_planner e self d p =
        Inr \<lparr>success = False, runtime = real_of_int (timeout self), plan_length = - 1,
              stdout = str '''', stderr = str ''Timeout''\<rparr>) \<and>
   (subprocess_run e (mcts_cmd self d p w l) (timeout self) = Inl TimeoutExpired \<longrightarrow>
      run_mcts_planner e self d p w l =
        Inr \<lparr>success = False, runtime = real_of_int (timeout self), plan_length = - 1,
              stdout = str '''', stderr = str ''Timeout''\<rparr>)"
  by (simp add: run_hsp_planner_def run_mcts_planner_def)

theorem timeout_outcome_witness:
  "run_hsp_planner always_timeout bench300 (str ''d.pddl'') (str ''p.pddl'') =
     Inr \<lparr>success = False, runtime = 300, plan_length = - 1,
           stdout = [], stderr = str ''Timeout''\<rparr> \<and>
   run_mcts_planner always_timeout bench300 (str ''d.pddl'') (str ''p.pddl'') 1000 100 =
     Inr \<lparr>success = False, runtime = 300, plan_length = - 1,
           stdout = [], stderr = str ''Timeout''\<rparr>"
  using timeout_outcome [of always_timeout bench300 "str ''d.pddl''" "str ''p.pddl''" 1000 100]
  by (simp add: always_timeout_def bench300_def str_def)

text \<open>
  C2, as amended. When the external process exits normally, every outcome the adapter
  returns has as plan length the value of \<open>extract_plan_length\<close> on the captured
  standard output, and its \<open>success\<close> holds exactly if the exit status is 0 and that
  plan length is greater than 0; the adapter returns such an outcome whenever
  \<open>extract_plan_length\<close> returns, and raises \<open>ValueError\<close> when that raises it. In
  particular, if the exit status is 0, the standard output has the form
  \<open>pre @ "Steps: 5" @ post\<close>, none of the three earlier patterns matches anywhere in it,
  the pattern \<open>Steps:\s*(\d+)\<close> has no match inside \<open>pre\<close>, and \<open>post\<close> does not begin
  with a decimal digit, then the adapter returns an outcome with \<open>success\<close> true and
  plan length 5.
\<close>

theorem normal_exit_outcome:
  assumes "subprocess_run e (hsp_cmd self d p) (timeout self) = Inr result \<and>
             out = run_hsp_planner e self d p \<or>
           subprocess_run e (mcts_cmd self d p w l) (timeout self) = Inr result \<and>
             out = run_mcts_planner e self d p w l"
  shows "(\<forall>r. out = Inr r \<longrightarrow>
            extract_plan_length (proc_stdout result) = Inr (plan_length r) \<and>
            (success r \<longleftrightarrow> returncode result = 0 \<and> 0 < plan_length r)) \<and>
         (\<forall>n. extract_plan_length (proc_stdout result) = Inr n \<longrightarrow>
            (\<exists>r. out = Inr r \<and> plan_length r = n)) \<and>
         (extract_plan_length (proc_stdout result) = Inl ValueError \<longrightarrow> out = Inl ValueError) \<and>
         (returncode result = 0 \<and>
          proc_stdout result = pre @ str ''Steps: 5'' @ post \<and>
          (\<forall>j<3. re_search (patterns ! j) (proc_stdout result) = None) \<and>
          re_search (patterns ! 3) pre = None \<and>
          \<not> begins_with_digit post
            \<longrightarrow> (\<exists>r. out = Inr r \<and> success r \<and> plan_length r = 5))"
proof -
  let ?x = "extract_plan_length (proc_stdout result)"
  have out: "out =
      (case ?x of
         Inl raised \<Rightarrow> Inl raised
       | Inr n \<Rightarrow>
           Inr \<lparr>success = (returncode result = 0 \<and> 0 < n), runtime = end_time e - start_time e,
                 plan_length = n, stdout = proc_stdout result, stderr = proc_stderr result\<rparr>)"
    using assms by (auto simp: run_hsp_planner_def run_mcts_planner_def Let_def split: sum.splits)
  have five: "?x = Inr 5"
    if "proc_stdout result = pre @ str ''Steps: 5'' @ post"
      and "\<forall>j<3. re_search (patterns ! j) (proc_stdout result) = None"
      and "re_search (patterns ! 3) pre = None"
      and "\<not> begins_with_digit post"
    using that by (rule steps_5)
  have returned: "\<forall>r. out = Inr r \<longrightarrow>
            ?x = Inr (plan_length r) \<and>
            (success r \<longleftrightarrow> returncode result = 0 \<and> 0 < plan_length r)"
    by (auto simp: out split: sum.splits)
  have returns: "\<forall>n. ?x = Inr n \<longrightarrow> (\<exists>r. out = Inr r \<and> plan_length r = n)"
    by (simp add: out)
  have raises: "?x = Inl ValueError \<longrightarrow> out = Inl ValueError"
    by (simp add: out)
  have special: "\<exists>r. out = Inr r \<and> success r \<and> plan_length r = 5"
    if h: "returncode result = 0 \<and>
          proc_stdout result = pre @ str ''Steps: 5'' @ post \<and>
          (\<forall>j<3. re_search (patterns ! j) (proc_stdout result) = None) \<and>
          re_search (patterns ! 3) pre = None \<and>
          \<not> begins_with_digit post"
  proof -
    from h have "?x = Inr 5" using five by blast
    with h show ?thesis by (simp add: out)
  qed
  from returned returns raises special show ?thesis by blast
qed

theorem normal_exit_outcome_witness:
  "(\<exists>r. run_hsp_planner (five_steps 0) bench300 (str ''d.pddl'') (str ''p.pddl'') = Inr r \<and>
        success r \<and> plan_length r = 5) \<and>
   (\<exists>r. run_mcts_planner (five_steps 0) bench300 (str ''d.pddl'') (str ''p.pddl'') 1000 100 = Inr r \<and>
        success r \<and> plan_length r = 5) \<and>
   (\<exists>r. run_hsp_planner (five_steps 1) bench300 (str ''d.pddl'') (str ''p.pddl'') = Inr r \<and>
        \<not> success r \<and> plan_length r = 5)"
proof -
  let ?d = "str ''d.pddl''" and ?p = "str ''p.pddl''"
  let ?pre = "str ''found plan'' @ [10]"
  let ?res = "\<lambda>status. CompletedProcess status (?pre @ str ''Steps: 5'' @ [10]) []"
  have hyps: "proc_stdout (?res status) = ?pre @ str ''Steps: 5'' @ [10] \<and>
      (\<forall>j<3. re_search (patterns ! j) (proc_stdout (?res status)) = None) \<and>
      re_search (patterns ! 3) ?pre = None \<and> \<not> begins_with_digit [10]" for status
    by (simp add: patterns_def begins_with_digit_def char_evals all_less_3)
  have five: "extract_plan_length (?pre @ str ''Steps: 5'' @ [10]) = Inr 5"
    using hyps [of 0] by (intro steps_5 [of _ ?pre "[10]"]) simp_all
  have a: "\<exists>r. run_hsp_planner (five_steps 0) bench300 ?d ?p = Inr r \<and> success r \<and> plan_length r = 5"
    using normal_exit_outcome [of "five_steps 0" bench300 ?d ?p "?res 0"
        "run_hsp_planner (five_steps 0) bench300 ?d ?p" _ _ ?pre "[10]"] hyps [of 0]
    by (auto simp: five_steps_def)
  have b: "\<exists>r. run_mcts_planner (five_steps 0) bench300 ?d ?p 1000 100 = Inr r \<and> success r \<and> plan_length r = 5"
    using normal_exit_outcome [of "five_steps 0" bench300 ?d ?p "?res 0"
        "run_mcts_planner (five_steps 0) bench300 ?d ?p 1000 100" 1000 100 ?pre "[10]"] hyps [of 0]
    by (auto simp: five_steps_def)
  have c: "\<exists>r. run_hsp_planner (five_steps 1) bench300 ?d ?p = Inr r \<and> \<not> success r \<and> plan_length r = 5"
    using normal_exit_outcome [of "five_steps 1" bench300 ?d ?p "?res 1"
        "run_hsp_planner (five_steps 1) bench300 ?d ?p" _ _ ?pre "[10]"] five
    by (auto simp: five_steps_def)
  from a b c show ?thesis by blast
qed

text \<open>
  The particular case fails as the claim states it. With exit status 0 and the standard
  output \<open>Steps: 50\<close>, which contains \<open>Steps: 5\<close> and matches none of the three
  earlier patterns, the plan length is 50. With exit status 0 and the two lines
  \<open>Steps: 0\<close> and \<open>Steps: 5\<close> the plan length is 0 and \<open>success\<close> is false.
\<close>

theorem normal_exit_outcome_counterexample:
  "run_hsp_planner (prints (str ''Steps: 5'' @ str ''0'')) bench300 (str ''d.pddl'') (str ''p.pddl'') =
     Inr \<lparr>success = True, runtime = 2, plan_length = 50,
           stdout = str ''Steps: 5'' @ str ''0'', stderr = []\<rparr> \<and>
   first_match (take 3 patterns) (str ''Steps: 5'' @ str ''0'') = None \<and>
   run_hsp_planner (prints (str ''Steps: 0'' @ [10] @ str ''Steps: 5'')) bench300
       (str ''d.pddl'') (str ''p.pddl'') =
     Inr \<lparr>success = False, runtime = 2, plan_length = 0,
           stdout = str ''Steps: 0'' @ [10] @ str ''Steps: 5'', stderr = []\<rparr> \<and>
   first_match (take 3 patterns) (str ''Steps: 0'' @ [10] @ str ''Steps: 5'') = None"
  by (simp add: run_hsp_planner_def prints_def extract_plan_length_def patterns_def
      py_evals char_evals)

text \<open>
  C3, as amended. The patterns are tried in the order of the list \<open>patterns\<close>: when the
  pattern at position \<open>i\<close> matches somewhere in the text and no pattern before it in
  the list does, the result is decided by the digits \<open>g\<close> that this pattern's leftmost
  match captures, wherever the later patterns may match. If \<open>g\<close> has at most 4300 digits
  the function returns the integer they write; if it has more, \<open>int\<close> raises
  \<open>ValueError\<close> and the function raises it too.
\<close>

theorem first_matching_pattern_wins:
  assumes "i < length patterns"
    and "re_search (patterns ! i) output = Some g"
    and "\<forall>j<i. re_search (patterns ! j) output = None"
  shows "extract_plan_length output =
           (if length g \<le> 4300 then Inr (int (decimal_value g)) else Inl ValueError)"
  using first_match_at [OF assms]
  by (simp add: extract_plan_length_def py_int_def max_str_digits_def)

theorem first_matching_pattern_wins_witness:
  "extract_plan_length (four_reports 4) = Inr 1 \<and>
   extract_plan_length (four_reports 3) = Inr 2 \<and>
   extract_plan_length (four_reports 2) = Inr 3 \<and>
   extract_plan_length (four_reports 1) = Inr 4"
proof -
  have "extract_plan_length (four_reports 4) =
          (if length (str ''1'') \<le> 4300 then Inr (int (decimal_value (str ''1''))) else Inl ValueError)"
    by (rule first_matching_pattern_wins [of 0])
      (simp_all add: four_reports_def patterns_def char_evals)
  moreover have "extract_plan_length (four_reports 3) =
          (if length (str ''2'') \<le> 4300 then Inr (int (decimal_value (str ''2''))) else Inl ValueError)"
    by (rule first_matching_pattern_wins [of 1])
      (simp_all add: four_reports_def patterns_def char_evals)
  moreover have "extract_plan_length (four_reports 2) =
          (if length (str ''3'') \<le> 4300 then Inr (int (decimal_value (str ''3''))) else Inl ValueError)"
    by (rule first_matching_pattern_wins [of 2])
      (simp_all add: four_reports_def patterns_def char_evals all_less_2 all_less_3)
  moreover have "extract_plan_length (four_reports 1) =
          (if length (str ''4'') \<le> 4300 then Inr (int (decimal_value (str ''4''))) else Inl ValueError)"
    by (rule first_matching_pattern_wins [of 3])
      (simp_all add: four_reports_def patterns_def char_evals all_less_2 all_less_3)
  ultimately show ?thesis
    by (simp add: decimal_value_def char_evals)
qed

text \<open>
  The claim as stated fails: the first pattern matches the text \<open>Plan length: \<close>
  followed by 4301 digits \<open>7\<close>, and the function returns no integer but raises
  \<open>ValueError\<close>.
\<close>

theorem first_matching_pattern_wins_counterexample:
  "re_search (patterns ! 0) (str ''Plan length: '' @ replicate 4301 (of_char CHR ''7'')) =
     Some (replicate 4301 (of_char CHR ''7'')) \<and>
   extract_plan_length (str ''Plan length: '' @ replicate 4301 (of_char CHR ''7'')) =
     Inl ValueError"
proof -
  let ?text = "str ''Plan length: '' @ replicate 4301 (of_char CHR ''7'')"
  let ?run = "replicate 4301 (of_char CHR ''7'' :: nat)"
  have found: "re_search (patterns ! 0) ?text = Some ?run"
    by (rule long_capture) simp
  have "first_match patterns ?text = Some ?run"
    using found by (intro first_match_at [of 0]) (simp_all add: patterns_def)
  then have "extract_plan_length ?text = py_int ?run"
    by (simp add: extract_plan_length_def)
  then have "extract_plan_length ?text = Inl ValueError"
    by (simp add: py_int_def max_str_digits_def)
  with found show ?thesis by (rule conjI)
qed

text \<open>
  C4, as amended. If the text has the form \<open>pre @ "Plan length: 7" @ post\<close>, the
  pattern \<open>Plan length:\s*(\d+)\<close> has no match inside \<open>pre\<close>, and \<open>post\<close> does not
  begin with a decimal digit, then \<open>extract_plan_length\<close> returns 7, whatever else
  the text holds.
\<close>

theorem plan_length_7:
  assumes "output = pre @ str ''Plan length: 7'' @ post"
    and "re_search (patterns ! 0) pre = None"
    and "\<not> begins_with_digit post"
  shows "extract_plan_length output = Inr 7"
proof -
  have "re_search (patterns ! 0) output = Some (str ''7'')"
    using plan_length_search [OF assms(2,3)] assms(1) by simp
  then have "first_match patterns output = Some (str ''7'')"
    by (simp add: patterns_def)
  then show ?thesis
    by (simp add: extract_plan_length_def str_def py_int_one_digit char_evals)
qed

theorem plan_length_7_witness:
  "re_search (patterns ! 0) (str ''cost 3'' @ [10]) = None \<and>
   \<not> begins_with_digit ([10] @ str ''Steps: 9'') \<and>
   extract_plan_length
     (str ''cost 3'' @ [10] @ str ''Plan length: 7'' @ [10] @ str ''Steps: 9'') = Inr 7"
  using plan_length_7 [of "str ''cost 3'' @ [10] @ str ''Plan length: 7'' @ [10] @ str ''Steps: 9''"
      "str ''cost 3'' @ [10]" "[10] @ str ''Steps: 9''"]
  by (simp add: patterns_def begins_with_digit_def char_evals)

text \<open>
  The claim as stated fails: a text can contain \<open>Plan length: 7\<close> and yield another
  number, because \<open>\d+\<close> takes every digit that follows and because an earlier match of
  the same pattern wins.
\<close>

theorem plan_length_7_counterexample:
  "extract_plan_length (str ''Plan length: 7'' @ str ''5'') = Inr 75 \<and>
   extract_plan_length (str ''Plan length: 3'' @ [10] @ str ''Plan length: 7'') = Inr 3"
  by (simp add: extract_plan_length_def patterns_def py_evals char_evals)

text \<open>
  C5. When none of the four patterns matches and the number \<open>n\<close> of lines that, with
  the surrounding whitespace removed, begin with \<open>(\<close> and contain \<open>)\<close> is greater
  than zero, \<open>extract_plan_length\<close> returns \<open>n\<close>. The lines are the pieces between
  line feeds.
\<close>

theorem action_line_count:
  assumes "\<forall>p \<in> set patterns. re_search p output = None"
    and "n = length (filter (\<lambda>line. startswith (strip line) (str ''('') \<and>
                                     of_char CHR '')'' \<in> set (strip line))
                      (py_split 10 output))"
    and "0 < n"
  shows "extract_plan_length output = Inr (int n)"
proof -
  have "first_match patterns output = None"
    using assms(1) by (simp add: first_match_None)
  moreover have "n = length (filter action_line (py_split 10 output))"
    using assms(2) by (simp add: action_line_trimmed [abs_def])
  ultimately show ?thesis
    using assms(3) by (simp add: extract_plan_length_def)
qed

theorem action_line_count_witness:
  "first_match patterns three_actions = None \<and>
   extract_plan_length three_actions = Inr 3"
proof -
  have none: "\<forall>p \<in> set patterns. re_search p three_actions = None"
    by (simp add: three_actions_def patterns_def char_evals)
  have "extract_plan_length three_actions = Inr (int 3)"
    by (rule action_line_count [OF none])
      (simp_all add: three_actions_def strip_def startswith_def char_evals)
  with none show ?thesis by (simp add: first_match_None)
qed

text \<open>
  C6. When none of the four patterns matches and no line looks like an action, the
  function returns -1 and does not raise; and no text at all makes it return a value
  below -1.
\<close>

theorem undetermined_sentinel:
  assumes "\<forall>p \<in> set patterns. re_search p output = None"
    and "filter (\<lambda>line. startswith (strip line) (str ''('') \<and>
                          of_char CHR '')'' \<in> set (strip line))
           (py_split 10 output) = []"
  shows "extract_plan_length output = Inr (- 1) \<and>
         (\<forall>text v. extract_plan_length text = Inr v \<longrightarrow> - 1 \<le> v)"
proof -
  have "first_match patterns output = None"
    using assms(1) by (simp add: first_match_None)
  moreover have "filter action_line (py_split 10 output) = []"
    using assms(2) by (simp add: action_line_trimmed [abs_def])
  ultimately have "extract_plan_length output = Inr (- 1)"
    by (simp add: extract_plan_length_def)
  then show ?thesis
    using extract_plan_length_lower by simp
qed

theorem undetermined_sentinel_witness:
  "first_match patterns (str ''no plan found'') = None \<and>
   extract_plan_length (str ''no plan found'') = Inr (- 1)"
proof -
  have none: "\<forall>p \<in> set patterns. re_search p (str ''no plan found'') = None"
    by (simp add: patterns_def char_evals)
  have "extract_plan_length (str ''no plan found'') = Inr (- 1) \<and>
        (\<forall>text v. extract_plan_length text = Inr v \<longrightarrow> - 1 \<le> v)"
    by (rule undetermined_sentinel [OF none])
      (simp add: strip_def startswith_def char_evals)
  with none show ?thesis by (simp add: first_match_None)
qed

text \<open>
  C8. For a non-empty result list, \<open>generate_plots\<close> saves one figure per domain, and
  the two plan-length curves of each figure are the plan lengths of the sorted rows of
  that domain with every length that is not positive replaced by infinity. A plan
  length of -1 is therefore drawn as infinity, and every positive plan length is drawn
  as itself, below infinity. If the sort only rearranges the rows, the values drawn for
  a domain are exactly the values of that domain's records mapped this way.
\<close>

theorem undetermined_length_is_infinite:
  assumes "results self \<noteq> []"
  shows "generate_plots sort_values self =
           Makedirs (str ''results/figures'') #
           map (\<lambda>d. Savefig (plot_domain sort_values (results self) d))
             (unique (map domain (results self))) \<and>
         (\<forall>d. fig_hsp_lengths (plot_domain sort_values (results self) d) =
                map (\<lambda>r. if hsp_plan_length r = - 1 then \<infinity> else plot_length (hsp_plan_length r))
                  (sort_values hsp_runtime (filter (\<lambda>r. domain r = d) (results self))) \<and>
              fig_mcts_lengths (plot_domain sort_values (results self) d) =
                map (\<lambda>r. if mcts_plan_length r = - 1 then \<infinity> else plot_length (mcts_plan_length r))
                  (sort_values hsp_runtime (filter (\<lambda>r. domain r = d) (results self)))) \<and>
         plot_length (- 1) = \<infinity> \<and>
         (\<forall>n. 0 < n \<longrightarrow> plot_length n = enat (nat n) \<and> plot_length n < plot_length (- 1)) \<and>
         ((\<forall>rs. mset (sort_values hsp_runtime rs) = mset rs) \<longrightarrow>
            (\<forall>d. mset (fig_hsp_lengths (plot_domain sort_values (results self) d)) =
                   image_mset (\<lambda>r. plot_length (hsp_plan_length r))
                     (mset (filter (\<lambda>r. domain r = d) (results self))) \<and>
                 mset (fig_mcts_lengths (plot_domain sort_values (results self) d)) =
                   image_mset (\<lambda>r. plot_length (mcts_plan_length r))
                     (mset (filter (\<lambda>r. domain r = d) (results self)))))"
proof (intro conjI allI impI)
  show "generate_plots sort_values self =
           Makedirs (str ''results/figures'') #
           map (\<lambda>d. Savefig (plot_domain sort_values (results self) d))
             (unique (map domain (results self)))"
    using assms by (simp add: generate_plots_def Let_def)
  show "plot_length (- 1) = \<infinity>"
    by (simp add: plot_length_def)
next
  fix d
  show "fig_hsp_lengths (plot_domain sort_values (results self) d) =
          map (\<lambda>r. if hsp_plan_length r = - 1 then \<infinity> else plot_length (hsp_plan_length r))
            (sort_values hsp_runtime (filter (\<lambda>r. domain r = d) (results self)))"
    by (simp add: plot_domain_def Let_def plot_length_def)
  show "fig_mcts_lengths (plot_domain sort_values (results self) d) =
          map (\<lambda>r. if mcts_plan_length r = - 1 then \<infinity> else plot_length (mcts_plan_length r))
            (sort_values hsp_runtime (filter (\<lambda>r. domain r = d) (results self)))"
    by (simp add: plot_domain_def Let_def plot_length_def)
next
  fix n :: int
  assume "0 < n"
  then show "plot_length n = enat (nat n)" and "plot_length n < plot_length (- 1)"
    by (simp_all add: plot_length_def)
next
  fix d
  assume same: "\<forall>rs. mset (sort_values hsp_runtime rs) = mset rs"
  let ?rs = "filter (\<lambda>r. domain r = d) (results self)"
  have "mset (map f (sort_values hsp_runtime ?rs)) = image_mset f (mset ?rs)" for f :: "row \<Rightarrow> enat"
    using same by (metis mset_map)
  then show "mset (fig_hsp_lengths (plot_domain sort_values (results self) d)) =
               image_mset (\<lambda>r. plot_length (hsp_plan_length r)) (mset ?rs)"
    and "mset (fig_mcts_lengths (plot_domain sort_values (results self) d)) =
               image_mset (\<lambda>r. plot_length (mcts_plan_length r)) (mset ?rs)"
    by (simp_all add: plot_domain_def Let_def comp_def)
qed

theorem undetermined_length_is_infinite_witness:
  "results (bench300\<lparr>results := blocksworld3\<rparr>) \<noteq> [] \<and>
   map mcts_plan_length blocksworld3 = [6, 9, - 1] \<and>
   generate_plots ascending (bench300\<lparr>results := blocksworld3\<rparr>) =
     [Makedirs (str ''results/figures''),
      Savefig \<lparr>fig_path = str ''results/figures/blocksworld_comparison.png'',
               fig_x = [0, 1, 2],
               fig_hsp_runtime = [1, 3, 5],
               fig_mcts_runtime = [2, 300, 7],
               fig_hsp_lengths = [4, 8, 12],
               fig_mcts_lengths = [9, \<infinity>, 6]\<rparr>]"
proof -
  let ?self = "bench300\<lparr>results := blocksworld3\<rparr>"
  have ne: "results ?self \<noteq> []"
    by (simp add: blocksworld3_def)
  have "generate_plots ascending ?self =
           Makedirs (str ''results/figures'') #
           map (\<lambda>d. Savefig (plot_domain ascending (results ?self) d))
             (unique (map domain (results ?self)))"
    using undetermined_length_is_infinite [OF ne, of ascending] by blast
  then show ?thesis
    by (simp add: blocksworld3_def plot_domain_def ascending_def plot_length_def
        numeral_eq_enat upt_rec str_def)
qed

text \<open>
  C9. With an empty result list \<open>generate_plots\<close> only prints the notice
  \<open>No results to plot\<close>: it creates no directory, saves no figure and does not raise.
\<close>

theorem no_results_no_plots:
  "results self = [] \<Longrightarrow> generate_plots sort_values self = [Print (str ''No results to plot'')]"
  by (simp add: generate_plots_def)

theorem no_results_no_plots_witness:
  "results bench300 = [] \<and>
   generate_plots (ascending) bench300 = [Print (str ''No results to plot'')]"
  using no_results_no_plots [of bench300 "ascending"]
  by (simp add: bench300_def)

text \<open>
  C10. Every outcome an adapter returns, from the normal exit or from the timeout,
  that reports success carries a plan length of at least 1.
\<close>

theorem success_positive_length:
  "(run_hsp_planner e self d p = Inr r \<longrightarrow> success r \<longrightarrow> 1 \<le> plan_length r) \<and>
   (run_mcts_planner e self d p w l = Inr r \<longrightarrow> success r \<longrightarrow> 1 \<le> plan_length r)"
  by (auto simp: run_hsp_planner_def run_mcts_planner_def Let_def split: sum.splits exn.splits)

theorem success_positive_length_witness:
  "(\<exists>r. run_hsp_planner (five_steps 0) bench300 (str ''d.pddl'') (str ''p.pddl'') = Inr r \<and>
        success r \<and> 1 \<le> plan_length r) \<and>
   (\<exists>r. run_mcts_planner (five_steps 0) bench300 (str ''d.pddl'') (str ''p.pddl'') 1000 100 = Inr r \<and>
        success r \<and> 1 \<le> plan_length r)"
proof -
  let ?d = "str ''d.pddl''" and ?p = "str ''p.pddl''"
  obtain r where r: "run_hsp_planner (five_steps 0) bench300 ?d ?p = Inr r" and sr: "success r"
    by (simp add: run_hsp_planner_def five_steps_def extract_plan_length_def patterns_def
        py_evals char_evals)
  obtain q where q: "run_mcts_planner (five_steps 0) bench300 ?d ?p 1000 100 = Inr q"
    and sq: "success q"
    by (simp add: run_mcts_planner_def five_steps_def extract_plan_length_def patterns_def
        py_evals char_evals)
  from success_positive_length [of "five_steps 0" bench300 ?d ?p r 1000 100] r sr
  have "1 \<le> plan_length r" by simp
  moreover
  from success_positive_length [of "five_steps 0" bench300 ?d ?p q 1000 100] q sq
  have "1 \<le> plan_length q" by simp
  ultimately show ?thesis using r q sr sq by simp
qed

end
